theory Spec2Isabelle
  imports Complex_Main "HOL-Library.Word"
begin

section \<open>JavaScript values, objects and number rendering\<close>

text \<open>
  A property read of a JavaScript object gives \<^verbatim>\<open>undefined\<close> when the object has no such
  property, and a property may also hold \<^verbatim>\<open>undefined\<close> itself. Values of the
  parameter type stand for primitive values (numbers, strings), on which \<^verbatim>\<open>===\<close> is
  equality.
\<close>

datatype 'a jsval = Undefined | Defined 'a

text \<open>
  An object with integer-index property names (\<^verbatim>\<open>answers[index]\<close>) is a list of its own
  properties; a name listed twice denotes the property of its first entry.
  \<^verbatim>\<open>Object.keys\<close> lists every own property name once, also one whose value is
  \<^verbatim>\<open>undefined\<close>.
\<close>

type_synonym 'a jsobject = "(nat \<times> 'a jsval) list"

definition Object_keys :: "'a jsobject \<Rightarrow> nat list" where
  "Object_keys obj = remdups (map fst obj)"

definition get_prop :: "'a jsobject \<Rightarrow> nat \<Rightarrow> 'a jsval" where
  "get_prop obj k = (case map_of obj k of None \<Rightarrow> Undefined | Some v \<Rightarrow> v)"

text \<open>Decimal rendering of a number inside a template literal or \<^verbatim>\<open>JSON.stringify\<close>.\<close>

definition digit_char :: "nat \<Rightarrow> char" where
  "digit_char d = ''0123456789'' ! d"

function show_nat :: "nat \<Rightarrow> string" where
  "show_nat n = (if n < 10 then [digit_char n] else show_nat (n div 10) @ [digit_char (n mod 10)])"
  by pat_completeness auto
termination
  by (relation "measure id") auto

declare show_nat.simps [simp del]

definition show_int :: "int \<Rightarrow> string" where
  "show_int i = (if i < 0 then CHR ''-'' # show_nat (nat (- i)) else show_nat (nat i))"

section \<open>ResultsScreen: the results object\<close>

text \<open>
  The fields of a question and (below) of \<^verbatim>\<open>results\<close> that ResultsScreen reads. \<open>qid\<close> is the
  question's \<^verbatim>\<open>id\<close>; \<^verbatim>\<open>trampaComun\<close> is kept by its truthiness; a missing
  \<^verbatim>\<open>subdominio\<close>, \<^verbatim>\<open>formato\<close>, \<^verbatim>\<open>questions\<close>, \<^verbatim>\<open>answers\<close> or \<^verbatim>\<open>config.domain\<close> is
  \<open>None\<close>; \<^verbatim>\<open>timeElapsed\<close> is in whole seconds.
\<close>

record 'a question =
  qid :: string
  respuestaCorrecta :: "'a jsval"
  dominio :: string
  nivel :: string
  subdominio :: "string option"
  formato :: "string option"
  trampaComun :: bool

section \<open>ResultsScreen: the statistics of the render (lines 172-189)\<close>

text \<open>
  \<^verbatim>\<open>questions.forEach((question, index) => { if (answers[index] !== undefined) { if
  (answers[index] === question.respuestaCorrecta) correctAnswers++; else
  incorrectAnswers++; } })\<close>, with the two counters as the accumulator.
\<close>

fun countAnswers :: "'a question list \<Rightarrow> nat \<Rightarrow> 'a jsobject \<Rightarrow> nat \<times> nat \<Rightarrow> nat \<times> nat" where
  "countAnswers [] index answers (correctAnswers, incorrectAnswers) =
     (correctAnswers, incorrectAnswers)"
| "countAnswers (question # rest) index answers (correctAnswers, incorrectAnswers) =
     countAnswers rest (Suc index) answers
       (if get_prop answers index \<noteq> Undefined then
          (if get_prop answers index = respuestaCorrecta question
           then (Suc correctAnswers, incorrectAnswers)
           else (correctAnswers, Suc incorrectAnswers))
        else (correctAnswers, incorrectAnswers))"

record 'a results =
  questions :: "'a question list option"
  answers :: "'a jsobject option"
  timeElapsed :: int
  config_domain :: "string option"

datatype js_error = TypeError

record statistics =
  totalQuestions :: nat
  answeredQuestions :: nat
  correctAnswers :: nat
  incorrectAnswers :: nat
  unanswered :: int

text \<open>
  The render returns early when \<^verbatim>\<open>results\<close> is null; otherwise it destructures it.
  \<^verbatim>\<open>questions.length\<close> and \<^verbatim>\<open>Object.keys(answers)\<close> throw a TypeError on a missing
  field. The subtraction \<^verbatim>\<open>totalQuestions - answeredQuestions\<close> is on JavaScript numbers
  and can be negative. (The percentage \<^verbatim>\<open>score\<close> and the per-domain and per-level
  tables are computed after these counters and do not change them.)
\<close>

definition computeStatistics :: "'a results \<Rightarrow> js_error + statistics" where
  "computeStatistics results =
     (case questions results of
        None \<Rightarrow> Inl TypeError
      | Some qs \<Rightarrow>
          (case answers results of
             None \<Rightarrow> Inl TypeError
           | Some ans \<Rightarrow>
               (let total = length qs;
                    answered = length (Object_keys ans);
                    (correct, incorrect) = countAnswers qs 0 ans (0, 0)
                in Inr \<lparr> totalQuestions = total, answeredQuestions = answered,
                         correctAnswers = correct, incorrectAnswers = incorrect,
                         unanswered = int total - int answered \<rparr>)))"

section \<open>ResultsScreen: the processing effect (lines 38-149)\<close>

text \<open>
  The effect calls into the progress context. The model records, in order, the calls
  it makes and the state updates it requests; what the context does with a call is
  outside the component. \<^verbatim>\<open>console.log\<close> output and the two read-only queries in the
  last log statement are left out.
\<close>

record metadata =
  md_domain :: string
  md_level :: string
  md_subdominio :: string
  md_format :: string
  md_difficulty :: string

record questionDetail =
  qd_id :: string
  qd_domain :: string
  qd_level :: string
  qd_correct :: bool
  qd_timeSpent :: rat

record quizResultsData =
  qr_totalQuestions :: nat
  qr_correctAnswers :: nat
  qr_totalTime :: int
  qr_domain :: string
  qr_questionDetails :: "questionDetail list"

datatype call =
    RecordQuestionAttempt string bool rat metadata
  | SaveAnsweredQuestion string
  | UpdateProgressAfterQuiz quizResultsData
  | SetProgressUpdate
  | DispatchProgressUpdated nat
  | ScheduleCheckAchievements

text \<open>
  \<^verbatim>\<open>processedQuizId = useRef(null)\<close> and \<^verbatim>\<open>hasProcessed = useState(false)\<close>: the state
  of one mounted ResultsScreen that the effect reads and writes.
\<close>

record screen_state =
  processedQuizId :: "string option"
  hasProcessed :: bool

definition initial_screen :: screen_state where
  "initial_screen = \<lparr> processedQuizId = None, hasProcessed = False \<rparr>"

text \<open>
  \<^verbatim>\<open>`${results.questions[0]?.id}_${results.timeElapsed}_${results.questions.length}`\<close>
\<close>

definition quizId :: "'a question list \<Rightarrow> int \<Rightarrow> string" where
  "quizId qs elapsed =
     (case qs of [] \<Rightarrow> ''undefined'' | q # _ \<Rightarrow> qid q)
       @ ''_'' @ show_int elapsed @ ''_'' @ show_nat (length qs)"

text \<open>\<^verbatim>\<open>x || fallback\<close> on an optional string: a missing and an empty string are falsy.\<close>

definition or_default :: "string option \<Rightarrow> string \<Rightarrow> string" where
  "or_default x fallback = (case x of None \<Rightarrow> fallback | Some s \<Rightarrow> if s = [] then fallback else s)"

text \<open>
  Step 1: the calls for the question at \<open>index\<close>; nothing is called for a question whose
  answer is \<^verbatim>\<open>undefined\<close>. \<open>n\<close> is \<^verbatim>\<open>results.questions.length\<close>.
\<close>

definition questionCalls :: "'a jsobject \<Rightarrow> int \<Rightarrow> nat \<Rightarrow> 'a question \<times> nat \<Rightarrow> call list" where
  "questionCalls ans elapsed n = (\<lambda>(question, index).
     (let userAnswer = get_prop ans index in
      if userAnswer \<noteq> Undefined then
        (let isCorrect = (userAnswer = respuestaCorrecta question);
             timeSpent = of_int elapsed / of_nat n
         in [RecordQuestionAttempt (qid question) isCorrect timeSpent
               \<lparr> md_domain = dominio question, md_level = nivel question,
                 md_subdominio = or_default (subdominio question) ''otros'',
                 md_format = or_default (formato question) ''opcion-multiple'',
                 md_difficulty = (if trampaComun question then ''trick'' else ''normal'') \<rparr>,
             SaveAnsweredQuestion (qid question)])
      else []))"

text \<open>Step 2: \<^verbatim>\<open>questionDetails\<close>.\<close>

definition questionDetails :: "'a jsobject \<Rightarrow> int \<Rightarrow> 'a question list \<Rightarrow> questionDetail list" where
  "questionDetails ans elapsed qs =
     map (\<lambda>(question, index).
            \<lparr> qd_id = qid question, qd_domain = dominio question, qd_level = nivel question,
              qd_correct = (get_prop ans index = respuestaCorrecta question),
              qd_timeSpent = of_int elapsed / of_nat (length qs) \<rparr>)
         (zip qs [0..<length qs])"

text \<open>
  Step 3: \<^verbatim>\<open>Object.keys(results.answers).filter((index) => results.answers[index] ===
  results.questions[index].respuestaCorrecta).length\<close>. For a key that is not an index of
  \<^verbatim>\<open>questions\<close>, \<^verbatim>\<open>results.questions[index]\<close> is \<^verbatim>\<open>undefined\<close> and reading its
  \<^verbatim>\<open>respuestaCorrecta\<close> throws.
\<close>

definition countCorrectKeys :: "'a jsobject \<Rightarrow> 'a question list \<Rightarrow> js_error + nat" where
  "countCorrectKeys ans qs =
     (if list_all (\<lambda>k. k < length qs) (Object_keys ans)
      then Inr (length (filter (\<lambda>k. get_prop ans k = respuestaCorrecta (qs ! k)) (Object_keys ans)))
      else Inl TypeError)"

datatype outcome = Returned | Threw js_error

text \<open>
  One run of the effect on the current \<^verbatim>\<open>results\<close> prop: the state after it, the calls
  it made, and whether it returned or threw. The identifier is stored before anything
  is called.
\<close>

definition processingEffect ::
  "screen_state \<Rightarrow> 'a results option \<Rightarrow> screen_state \<times> call list \<times> outcome" where
  "processingEffect st results =
     (case results of
        None \<Rightarrow> (st, [], Returned)
      | Some r \<Rightarrow>
     (case questions r of
        None \<Rightarrow> (st, [], Returned)
      | Some qs \<Rightarrow>
     (case answers r of
        None \<Rightarrow> (st, [], Returned)
      | Some ans \<Rightarrow>
          (let ident = quizId qs (timeElapsed r) in
           if processedQuizId st = Some ident then (st, [], Returned)
           else
             (let st' = st \<lparr> processedQuizId := Some ident, hasProcessed := True \<rparr>;
                  perQuestion = concat (map (questionCalls ans (timeElapsed r) (length qs))
                                            (zip qs [0..<length qs]))
              in case countCorrectKeys ans qs of
                   Inl e \<Rightarrow> (st', perQuestion, Threw e)
                 | Inr correct \<Rightarrow>
                     (st',
                      perQuestion @
                      [UpdateProgressAfterQuiz
                         \<lparr> qr_totalQuestions = length qs, qr_correctAnswers = correct,
                           qr_totalTime = timeElapsed r,
                           qr_domain = or_default (config_domain r) ''all'',
                           qr_questionDetails = questionDetails ans (timeElapsed r) qs \<rparr>,
                       SetProgressUpdate,
                       DispatchProgressUpdated (length qs),
                       ScheduleCheckAchievements],
                      Returned))))))"

text \<open>
  The effect runs again whenever \<^verbatim>\<open>results\<close> or one of the context callbacks in its
  dependency list changes. A sequence of runs of one mounted screen, each with the
  \<^verbatim>\<open>results\<close> prop of that render, gives the final state and the calls of every run.
\<close>

fun runEffects :: "screen_state \<Rightarrow> 'a results option list \<Rightarrow> screen_state \<times> call list list" where
  "runEffects st [] = (st, [])"
| "runEffects st (r # rs) =
     (case processingEffect st r of
        (st', calls, _) \<Rightarrow> (case runEffects st' rs of (st'', rest) \<Rightarrow> (st'', calls # rest)))"

text \<open>The identifier under which a run would process \<^verbatim>\<open>results\<close>, when it would.\<close>

definition resultsId :: "'a results option \<Rightarrow> string option" where
  "resultsId results =
     (case results of
        None \<Rightarrow> None
      | Some r \<Rightarrow>
          (case (questions r, answers r) of
             (Some qs, Some _) \<Rightarrow> Some (quizId qs (timeElapsed r))
           | _ \<Rightarrow> None))"

section \<open>ResultsScreen: the expanded-questions set\<close>

text \<open>
  \<^verbatim>\<open>const [expandedQuestions, setExpandedQuestions] = useState(new Set());\<close>

  \<^verbatim>\<open>toggleQuestion\<close> copies the current set, deletes the index when the copy has it and
  adds it otherwise, and stores the copy as the next state. The model passes the state
  explicitly: it takes the set of the current render and returns the set handed to
  \<^verbatim>\<open>setExpandedQuestions\<close>.
\<close>

definition toggleQuestion :: "'a set \<Rightarrow> 'a \<Rightarrow> 'a set" where
  "toggleQuestion expandedQuestions index =
     (let newExpanded = expandedQuestions
      in if index \<in> newExpanded then newExpanded - {index} else insert index newExpanded)"

section \<open>The progress service: the dedup hash (report lines 102-110)\<close>

text \<open>
  The storage service (\<^verbatim>\<open>src/services/progressService.js\<close>) is present through the
  excerpts that the analysis report quotes from it. The fields of \<^verbatim>\<open>data.progress\<close> that
  the report and the specification name are kept; a missing field is \<open>None\<close>
  (\<^verbatim>\<open>undefined\<close>), and a missing \<^verbatim>\<open>data\<close> or \<^verbatim>\<open>data.progress\<close> is a missing progress.
  The list field \<^verbatim>\<open>answeredQuestions\<close> carries the suffix \<open>_list\<close>, the name being
  taken by the counter of the results screen.
\<close>

record progress =
  totalPoints :: "int option"
  totalXP :: "int option"
  quizzesTaken :: "int option"
  answeredQuestions_list :: "string list option"
  achievements :: "string list option"
  missions :: "(string \<times> string) list option"
  questionTracking :: "(string \<times> string) list option"

text \<open>
  \<^verbatim>\<open>JSON.stringify\<close> of an object literal whose property values are numbers or
  \<^verbatim>\<open>undefined\<close>: a property holding \<^verbatim>\<open>undefined\<close> is left out, the others are written
  in order as \<^verbatim>\<open>"key":number\<close>, separated by commas.
\<close>

fun join_with :: "string \<Rightarrow> string list \<Rightarrow> string" where
  "join_with sep [] = []"
| "join_with sep [x] = x"
| "join_with sep (x # y # ys) = x @ sep @ join_with sep (y # ys)"

definition JSON_stringify :: "(string \<times> int option) list \<Rightarrow> string" where
  "JSON_stringify properties =
     ''{'' @ join_with '',''
              (concat (map (\<lambda>(key, v). case v of
                                 None \<Rightarrow> []
                               | Some n \<Rightarrow> [[CHR 0x22] @ key @ [CHR 0x22] @ '':'' @ show_int n])
                           properties))
          @ ''}''"

text \<open>
  \<^verbatim>\<open>const str = JSON.stringify({ totalPoints: data?.progress?.totalPoints, quizzesTaken:
  data?.progress?.quizzesTaken, answeredQuestions: data?.progress?.answeredQuestions?.length,
  timestamp: Math.floor(Date.now() / 1000) })\<close>, with \<open>now\<close> the value of
  \<^verbatim>\<open>Date.now()\<close> in milliseconds.
\<close>

definition hashInput :: "int \<Rightarrow> progress option \<Rightarrow> string" where
  "hashInput now data =
     JSON_stringify
       [(''totalPoints'', Option.bind data totalPoints),
        (''quizzesTaken'', Option.bind data quizzesTaken),
        (''answeredQuestions'', map_option (\<lambda>xs. int (length xs)) (Option.bind data answeredQuestions_list)),
        (''timestamp'', Some (now div 1000))]"

text \<open>
  The excerpt elides the digest of \<^verbatim>\<open>str\<close>; the report's proposed version ends with
  \<^verbatim>\<open>return this.simpleHash(str)\<close>. The digest is a parameter of the model.
\<close>

definition generateDataHash :: "(string \<Rightarrow> 'h) \<Rightarrow> int \<Rightarrow> progress option \<Rightarrow> 'h" where
  "generateDataHash digest now data = digest (hashInput now data)"

text \<open>
  The one digest loop the sources give (report lines 577-582):
  \<^verbatim>\<open>let hash = 0; for (...) { hash = ((hash << 5) - hash) + data.charCodeAt(i); hash = hash
  & hash; } return hash.toString(36);\<close>. \<^verbatim>\<open>hash & hash\<close> keeps the value in 32 bits, so
  the loop is arithmetic on 32-bit words, read as a signed number at the end.
\<close>

definition base36_char :: "nat \<Rightarrow> char" where
  "base36_char d = ''0123456789abcdefghijklmnopqrstuvwxyz'' ! d"

function show_base36 :: "nat \<Rightarrow> string" where
  "show_base36 n =
     (if n < 36 then [base36_char n] else show_base36 (n div 36) @ [base36_char (n mod 36)])"
  by pat_completeness auto
termination
  by (relation "measure id") auto

declare show_base36.simps [simp del]

definition toString36 :: "int \<Rightarrow> string" where
  "toString36 i = (if i < 0 then CHR ''-'' # show_base36 (nat (- i)) else show_base36 (nat i))"

definition simpleHash :: "string \<Rightarrow> string" where
  "simpleHash str =
     toString36 (sint (foldl (\<lambda>hash c. push_bit 5 hash - hash + of_nat (of_char c)) (0 :: 32 word) str))"

section \<open>The progress service: saveProgress (report lines 36-52)\<close>

text \<open>
  The fields of the service that \<^verbatim>\<open>saveProgress\<close> reads and writes. \<open>performing\<close> is
  instrumentation: the hashes of the \<^verbatim>\<open>performSave\<close> bodies that have begun and are
  suspended on backend I/O, oldest first. A write is in flight exactly when it is not
  empty.
\<close>

record 'h request =
  req_data :: "progress option"
  req_hash :: 'h
  req_timestamp :: int

record 'h service =
  lastSaveHash :: "'h option"
  lastSaveTime :: int
  MIN_SAVE_INTERVAL :: int
  saveQueue :: "'h request list"
  performing :: "'h list"

datatype save_outcome =
    Skipped       \<comment> \<open>\<^verbatim>\<open>{ success: true, skipped: true }\<close>\<close>
  | Pending       \<comment> \<open>a promise whose request sits in \<^verbatim>\<open>saveQueue\<close>\<close>
  | Proceeds      \<comment> \<open>neither check returned: the call goes on to save\<close>

text \<open>
  The synchronous part of \<^verbatim>\<open>saveProgress\<close>, as quoted: the hash check against
  \<^verbatim>\<open>lastSaveHash\<close>, then the throttle check against \<^verbatim>\<open>lastSaveTime\<close>. Neither check
  looks at \<^verbatim>\<open>options\<close> or at a save in progress. JavaScript runs this part without
  interruption.
\<close>

definition saveProgress ::
  "(string \<Rightarrow> 'h) \<Rightarrow> int \<Rightarrow> 'h service \<Rightarrow> progress option \<Rightarrow> save_outcome \<times> 'h service" where
  "saveProgress digest now svc progressData =
     (let dataHash = generateDataHash digest now progressData in
      if lastSaveHash svc = Some dataHash then (Skipped, svc)
      else if now - lastSaveTime svc < MIN_SAVE_INTERVAL svc then
        (Pending,
         svc \<lparr> saveQueue := saveQueue svc @
                  [\<lparr> req_data = progressData, req_hash = dataHash, req_timestamp = now \<rparr>] \<rparr>)
      else (Proceeds, svc))"

text \<open>
  The excerpt ends after the two checks: the statements that start \<^verbatim>\<open>performSave\<close>
  and those that end a save are not quoted. Two continuations are modelled, over the
  same events: the one the specification prescribes, and the one the excerpt's own
  comments describe for the current code.
\<close>

datatype event =
    SaveCall "progress option" int    \<comment> \<open>a caller invokes \<^verbatim>\<open>saveProgress\<close> at this time\<close>
  | BackendSettles int                \<comment> \<open>the oldest suspended \<^verbatim>\<open>performSave\<close> succeeds at this time\<close>
  | BackendFails int                  \<comment> \<open>the oldest suspended \<^verbatim>\<open>performSave\<close> fails at this time\<close>

text \<open>
  Modelled from the spec: the write coordinator around the quoted checks (4.4). A call
  that is not skipped (step 1, the quoted hash check) is enqueued while a write is in
  flight (step 2) or inside the throttle window (step 3, the quoted interval check);
  otherwise the coordinator goes in flight, takes the single write lock and runs
  \<^verbatim>\<open>performSave\<close>, whose body suspends on the asynchronous backend (step 4). On success
  the committed fingerprint and timestamp are recorded, the lock is released and one
  queued request is drained, the most recent one, the others being superseded (d); on
  failure the queued requests are rejected and the lock is released (e).
\<close>

fun step :: "(string \<Rightarrow> 'h) \<Rightarrow> 'h service \<Rightarrow> event \<Rightarrow> 'h service" where
  "step digest svc (SaveCall progressData now) =
     (case saveProgress digest now svc progressData of
        (Proceeds, svc') \<Rightarrow>
          (let dataHash = generateDataHash digest now progressData in
           if performing svc' \<noteq> [] then
             svc' \<lparr> saveQueue := saveQueue svc' @
                      [\<lparr> req_data = progressData, req_hash = dataHash, req_timestamp = now \<rparr>] \<rparr>
           else svc' \<lparr> performing := [dataHash] \<rparr>)
      | (_, svc') \<Rightarrow> svc')"
| "step digest svc (BackendSettles now) =
     (case performing svc of
        [] \<Rightarrow> svc
      | h # rest \<Rightarrow>
          (let committed = svc \<lparr> lastSaveHash := Some h, lastSaveTime := now \<rparr> in
           if saveQueue svc = [] then committed \<lparr> performing := rest \<rparr>
           else committed \<lparr> performing := rest @ [req_hash (last (saveQueue svc))],
                            saveQueue := [] \<rparr>))"
| "step digest svc (BackendFails now) =
     (case performing svc of
        [] \<Rightarrow> svc
      | h # rest \<Rightarrow> svc \<lparr> performing := rest, saveQueue := [] \<rparr>)"

definition run :: "(string \<Rightarrow> 'h) \<Rightarrow> 'h service \<Rightarrow> event list \<Rightarrow> 'h service" where
  "run digest svc events = foldl (step digest) svc events"

text \<open>
  The current code, as the comments inside the excerpt describe it. Lines 39-40: two
  callers at the same moment can both pass the hash check, so \<^verbatim>\<open>lastSaveHash\<close> is not
  set when a call is made, only once its save has ended. Lines 45-46: if a save takes
  longer than \<^verbatim>\<open>MIN_SAVE_INTERVAL\<close>, two saves can run at the same time, so a call that
  passes both checks starts its save at once, whatever is in progress, and the throttle
  clock \<^verbatim>\<open>lastSaveTime\<close> is set when the save starts. No lock and no in-flight state
  is consulted. Requests in \<^verbatim>\<open>saveQueue\<close> stay there: nothing is said of how the queue
  is drained.
\<close>

fun step_as_reported :: "(string \<Rightarrow> 'h) \<Rightarrow> 'h service \<Rightarrow> event \<Rightarrow> 'h service" where
  "step_as_reported digest svc (SaveCall progressData now) =
     (case saveProgress digest now svc progressData of
        (Proceeds, svc') \<Rightarrow>
          svc' \<lparr> lastSaveTime := now,
                 performing := performing svc' @ [generateDataHash digest now progressData] \<rparr>
      | (_, svc') \<Rightarrow> svc')"
| "step_as_reported digest svc (BackendSettles now) =
     (case performing svc of
        [] \<Rightarrow> svc
      | h # rest \<Rightarrow> svc \<lparr> performing := rest, lastSaveHash := Some h \<rparr>)"
| "step_as_reported digest svc (BackendFails now) =
     (case performing svc of
        [] \<Rightarrow> svc
      | h # rest \<Rightarrow> svc \<lparr> performing := rest \<rparr>)"

definition run_as_reported :: "(string \<Rightarrow> 'h) \<Rightarrow> 'h service \<Rightarrow> event list \<Rightarrow> 'h service" where
  "run_as_reported digest svc events = foldl (step_as_reported digest) svc events"

text \<open>
  A new service: no hash saved yet (\<^verbatim>\<open>null\<close>), last save at time 0, nothing queued or
  in progress.
\<close>

definition new_service :: "int \<Rightarrow> 'h service" where
  "new_service interval =
     \<lparr> lastSaveHash = None, lastSaveTime = 0, MIN_SAVE_INTERVAL = interval,
       saveQueue = [], performing = [] \<rparr>"

section \<open>The progress service: performSave (report lines 137-184)\<close>









section \<open>The progress service: ensureDB (report lines 196-205)\<close>

text \<open>
  \<^verbatim>\<open>this.dbReady\<close> is the promise of the database opened at construction; awaiting it
  gives its settled outcome, the same at every await: the database, or the error it was
  rejected with. The effects of a call are the console lines it writes and the signals
  it emits.
\<close>

datatype effect = ConsoleWarn string string | Emit string string

record 'db db_state =
  db :: "'db option"
  dbReady :: "string + 'db"

definition ensureDB :: "'db db_state \<Rightarrow> 'db option \<times> 'db db_state \<times> effect list" where
  "ensureDB this =
     (if db this \<noteq> None then (db this, this, [])
      else
        (case dbReady this of
           Inr database \<Rightarrow> (Some database, this \<lparr> db := Some database \<rparr>, [])
         | Inl message \<Rightarrow>
             (None, this \<lparr> db := None \<rparr>, [ConsoleWarn ''IndexedDB no disponible:'' message])))"

section \<open>The schema migrator\<close>

text \<open>
  Modelled from the spec: the migrator, whose code is not among the sources (4.3).
  \<^verbatim>\<open>migrate\<close> applies the chain of version-specific transforms in ascending order, one
  version at a time, until the snapshot's version equals the current schema version.
  The transform for version N maps the content of a version-N snapshot to the content
  of a version N+1 snapshot and may fail on structurally invalid input; a failure, and a
  version beyond the current one (which no transform reaches), is MigrationFailed.
\<close>

record 'a snapshot =
  version :: nat
  content :: 'a

datatype migrate_error = MigrationFailed

function migrate :: "nat \<Rightarrow> (nat \<Rightarrow> 'a \<Rightarrow> 'a option) \<Rightarrow> 'a snapshot \<Rightarrow> migrate_error + 'a snapshot" where
  "migrate current transform s =
     (if version s = current then Inr s
      else if current < version s then Inl MigrationFailed
      else (case transform (version s) (content s) of
              None \<Rightarrow> Inl MigrationFailed
            | Some c \<Rightarrow> migrate current transform \<lparr> version = Suc (version s), content = c \<rparr>))"
  by pat_completeness auto
termination
  by (relation "measure (\<lambda>(current, transform, s). current - version s)") auto

declare migrate.simps [simp del]

section \<open>Sample inputs\<close>

text \<open>
  A one-question quiz whose only question has the given id, answered correctly in 30
  seconds, for the concrete runs below.
\<close>

definition example_question :: "string \<Rightarrow> nat question" where
  "example_question ident =
     \<lparr> qid = ident, respuestaCorrecta = Defined 1, dominio = ''preparar-datos'',
       nivel = ''principiante'', subdominio = None, formato = None, trampaComun = False \<rparr>"

definition example_results :: "string \<Rightarrow> nat results" where
  "example_results ident =
     \<lparr> questions = Some [example_question ident], answers = Some [(0, Defined 1)],
       timeElapsed = 30, config_domain = None \<rparr>"

text \<open>The calls that processing \<open>example_results ident\<close> makes.\<close>

definition example_calls :: "string \<Rightarrow> call list" where
  "example_calls ident =
     [RecordQuestionAttempt ident True 30
        \<lparr> md_domain = ''preparar-datos'', md_level = ''principiante'',
          md_subdominio = ''otros'', md_format = ''opcion-multiple'',
          md_difficulty = ''normal'' \<rparr>,
      SaveAnsweredQuestion ident,
      UpdateProgressAfterQuiz
        \<lparr> qr_totalQuestions = 1, qr_correctAnswers = 1, qr_totalTime = 30,
          qr_domain = ''all'',
          qr_questionDetails =
            [\<lparr> qd_id = ident, qd_domain = ''preparar-datos'',
               qd_level = ''principiante'', qd_correct = True, qd_timeSpent = 30 \<rparr>] \<rparr>,
      SetProgressUpdate, DispatchProgressUpdated 1, ScheduleCheckAchievements]"

text \<open>
  A progress of 100 points after one quiz, with empty lists and tables, and a chain of
  two transforms over snapshots whose content is a list of named counters: version 0 to
  1 adds \<open>totalXP\<close>, version 1 to 2 adds \<open>quizzesTaken\<close> and rejects an empty content.
\<close>

definition example_progress :: progress where
  "example_progress =
     \<lparr> totalPoints = Some 100, totalXP = Some 100, quizzesTaken = Some 1,
       answeredQuestions_list = Some [], achievements = Some [], missions = Some [],
       questionTracking = Some [] \<rparr>"

definition example_transform :: "nat \<Rightarrow> (string \<times> int) list \<Rightarrow> (string \<times> int) list option" where
  "example_transform n c =
     (if n = 0 then Some (c @ [(''totalXP'', 0)])
      else if n = 1 then (if c = [] then None else Some (c @ [(''quizzesTaken'', 0)]))
      else None)"



section \<open>Theorems\<close>

subsection \<open>The dedup hash and saveProgress\<close>

lemmas hash_simps =
  generateDataHash_def hashInput_def JSON_stringify_def show_int_def show_nat.simps digit_char_def
  simpleHash_def toString36_def show_base36.simps base36_char_def

text \<open>Within one clock second the hashed string is the same, whatever the digest.\<close>

lemma hashInput_same_second:
  "now div 1000 = now' div 1000 \<Longrightarrow> hashInput now data = hashInput now' data"
  by (simp add: hashInput_def)

text \<open>
  A save of the content whose hash is the last saved one is skipped when the clock
  shows the same second as at the time that hash was computed.
\<close>

lemma saveProgress_skips_same_second:
  assumes "lastSaveHash svc = Some (generateDataHash digest now data)"
      and "now div 1000 = now' div 1000"
  shows "saveProgress digest now' svc data = (Skipped, svc)"
  using assms hashInput_same_second [of now now' data]
  by (simp add: saveProgress_def generateDataHash_def)

text \<open>
  Under the coordinator of the specification at most one write is in flight, after
  every sequence of events.
\<close>

lemma step_one_in_flight:
  "length (performing svc) \<le> 1 \<Longrightarrow> length (performing (step digest svc e)) \<le> 1"
  by (cases e)
     (auto simp: saveProgress_def Let_def split: if_splits list.splits)

lemma run_one_in_flight:
  "length (performing svc) \<le> 1 \<Longrightarrow> length (performing (run digest svc events)) \<le> 1"
  unfolding run_def
proof (induction events arbitrary: svc)
  case Nil
  then show ?case by simp
next
  case (Cons e events)
  from Cons.prems have "length (performing (step digest svc e)) \<le> 1"
    by (rule step_one_in_flight)
  then have "length (performing (foldl (step digest) (step digest svc e) events)) \<le> 1"
    by (rule Cons.IH)
  then show ?case by simp
qed

text \<open>
  Under the current code as its comments describe it, a second call made within the
  interval after a save has started is queued, not started.
\<close>

lemma as_reported_queues_within_interval:
  assumes "d < interval"
  shows "run_as_reported digest (new_service interval)
           [SaveCall dataA (interval + int d1), SaveCall dataB (interval + int d1 + d)]
         = \<lparr> lastSaveHash = None, lastSaveTime = interval + int d1,
             MIN_SAVE_INTERVAL = interval,
             saveQueue = [\<lparr> req_data = dataB,
                            req_hash = generateDataHash digest (interval + int d1 + d) dataB,
                            req_timestamp = interval + int d1 + d \<rparr>],
             performing = [generateDataHash digest (interval + int d1) dataA] \<rparr>"
  using assms by (simp add: run_as_reported_def new_service_def saveProgress_def Let_def)


text \<open>
  C2 (not met by the quoted code). The claim: the fingerprint of a snapshot does not
  depend on the instant at which it is computed. The code: the hashed string holds
  \<^verbatim>\<open>Math.floor(Date.now() / 1000)\<close>. The same progress hashed at 1761177600999 ms and one
  millisecond later, in the next second, gives two different fingerprints under the
  report's digest loop.
\<close>

theorem hash_changes_with_clock:
  "generateDataHash simpleHash 1761177600999 (Some example_progress) = ''7pkh4j''
   \<and> generateDataHash simpleHash 1761177601000 (Some example_progress) = ''7pkh5e''"
  by (simp add: hash_simps example_progress_def)

text \<open>
  C3 (not met by the quoted code). The claim: two snapshots that differ in totalPoints,
  achievements, missions or the question-tracking count have different fingerprints.
  The code: the hashed string is built from totalPoints, quizzesTaken, the number of
  answered questions and the clock second only. Replacing the achievements, the
  missions and the question tracking of a progress by anything else leaves the
  fingerprint as it was, for every digest and at every instant.
\<close>

theorem hash_ignores_achievements_and_missions:
  "generateDataHash digest now
     (Some (p \<lparr> achievements := a, missions := m, questionTracking := q \<rparr>))
   = generateDataHash digest now (Some p)"
  by (simp add: generateDataHash_def hashInput_def)

text \<open>
  C4 (not met by the quoted code). The claim: saving the same content twice in
  immediate succession, without the force option, makes the second call report
  \<^verbatim>\<open>skipped: true\<close> and write nothing. The code: on a new service with an interval of one
  second, the progress is saved at 1761177600999 ms and the save commits at once; the
  same progress saved one millisecond later hashes to another fingerprint, is not
  skipped, and is put on the save queue for a later write.
\<close>

theorem second_save_not_skipped:
  "run simpleHash (new_service 1000)
     [SaveCall (Some example_progress) 1761177600999, BackendSettles 1761177600999]
   = \<lparr> lastSaveHash = Some ''7pkh4j'', lastSaveTime = 1761177600999, MIN_SAVE_INTERVAL = 1000,
       saveQueue = [], performing = [] \<rparr>
   \<and> saveProgress simpleHash 1761177601000
       \<lparr> lastSaveHash = Some ''7pkh4j'', lastSaveTime = 1761177600999, MIN_SAVE_INTERVAL = 1000,
         saveQueue = [], performing = [] \<rparr>
       (Some example_progress)
     = (Pending,
        \<lparr> lastSaveHash = Some ''7pkh4j'', lastSaveTime = 1761177600999, MIN_SAVE_INTERVAL = 1000,
          saveQueue = [\<lparr> req_data = Some example_progress, req_hash = ''7pkh5e'',
                         req_timestamp = 1761177601000 \<rparr>],
          performing = [] \<rparr>)"
  by (simp add: run_def new_service_def saveProgress_def Let_def hash_simps example_progress_def)

subsection \<open>performSave and ensureDB\<close>



text \<open>
  C7 (not met by the quoted code). The claim: when the durable adapter fails to
  initialise it reports unavailable for the session, the coordinator falls back to the
  fast adapter, and a degraded-mode signal is exposed. The code: with \<^verbatim>\<open>dbReady\<close>
  rejected, \<^verbatim>\<open>ensureDB\<close> returns \<^verbatim>\<open>null\<close> and leaves the service as it was, so every
  later call does the same; its only effect is a console warning, and no signal is
  emitted.
\<close>

theorem ensureDB_failure_silent:
  "ensureDB \<lparr> db = None, dbReady = Inl message \<rparr>
   = (None, \<lparr> db = None, dbReady = Inl message \<rparr>,
      [ConsoleWarn ''IndexedDB no disponible:'' message])"
  by (simp add: ensureDB_def)

subsection \<open>The schema migrator\<close>

lemma migrate_current:
  "version s = current \<Longrightarrow> migrate current transform s = Inr s"
  by (simp add: migrate.simps)

lemma migrate_reaches_current:
  "migrate current transform s = Inr s' \<Longrightarrow> version s' = current"
proof (induction current transform s rule: migrate.induct)
  case (1 current transform s)
  show ?case
  proof (cases "version s = current")
    case True
    with "1.prems" show ?thesis by (simp add: migrate.simps)
  next
    case False
    with "1.prems" obtain c where c: "transform (version s) (content s) = Some c"
      and lt: "\<not> current < version s"
      and rec: "migrate current transform \<lparr> version = Suc (version s), content = c \<rparr> = Inr s'"
      by (subst (asm) migrate.simps) (auto split: if_splits option.splits)
    from "1.IH" [OF False lt c rec] show ?thesis .
  qed
qed

text \<open>
  C6. migrate is idempotent: for every snapshot that migrates, migrating the result
  again gives the same result, and migrating a snapshot that is already at the current
  schema version gives back that snapshot.
\<close>

theorem migrate_idempotent:
  "(migrate current transform s = Inr s' \<longrightarrow> migrate current transform s' = Inr s')
   \<and> (version s = current \<longrightarrow> migrate current transform s = Inr s)"
  using migrate_reaches_current migrate_current by blast

text \<open>A version-0 snapshot migrates to version 2 in two steps; the result migrates to itself.\<close>

theorem migrate_idempotent_witness:
  "migrate 2 example_transform \<lparr> version = 0, content = [(''totalPoints'', 100)] \<rparr>
     = Inr \<lparr> version = 2, content = [(''totalPoints'', 100), (''totalXP'', 0), (''quizzesTaken'', 0)] \<rparr>
   \<and> migrate 2 example_transform
       \<lparr> version = 2, content = [(''totalPoints'', 100), (''totalXP'', 0), (''quizzesTaken'', 0)] \<rparr>
     = Inr \<lparr> version = 2, content = [(''totalPoints'', 100), (''totalXP'', 0), (''quizzesTaken'', 0)] \<rparr>"
proof -
  let ?s = "\<lparr> version = 0, content = [(''totalPoints'', 100::int)] \<rparr>"
  let ?s' = "\<lparr> version = 2, content = [(''totalPoints'', 100::int), (''totalXP'', 0), (''quizzesTaken'', 0)] \<rparr>"
  have m: "migrate 2 example_transform ?s = Inr ?s'"
    by (simp add: migrate.simps example_transform_def)
  from m migrate_idempotent [of 2 example_transform ?s ?s'] show ?thesis by simp
qed

subsection \<open>The statistics of the render\<close>

lemma countAnswers_total:
  "(case countAnswers qs i ans (c, n) of (c', n') \<Rightarrow> c' + n') =
     c + n + length (filter (\<lambda>j. get_prop ans j \<noteq> Undefined) [i..<i + length qs])"
proof (induction qs arbitrary: i c n)
  case Nil
  then show ?case by simp
next
  case (Cons q qs)
  have upt: "[i..<i + length (q # qs)] = i # [Suc i..<Suc i + length qs]"
    by (simp add: upt_rec)
  show ?case
    unfolding upt by (simp add: Cons.IH)
qed

lemma get_prop_defined_key:
  "get_prop ans j \<noteq> Undefined \<Longrightarrow> j \<in> set (Object_keys ans)"
  by (auto simp: get_prop_def Object_keys_def split: option.splits dest: map_of_SomeD
      intro: rev_image_eqI)

lemma answered_keys_count:
  assumes range: "list_all (\<lambda>k. k < n) (Object_keys ans)"
      and defd: "list_all (\<lambda>k. get_prop ans k \<noteq> Undefined) (Object_keys ans)"
  shows "length (filter (\<lambda>j. get_prop ans j \<noteq> Undefined) [0..<n]) = length (Object_keys ans)"
proof -
  have "set (filter (\<lambda>j. get_prop ans j \<noteq> Undefined) [0..<n]) = set (Object_keys ans)"
    using range defd get_prop_defined_key by (fastforce simp: list_all_iff)
  moreover have "distinct (filter (\<lambda>j. get_prop ans j \<noteq> Undefined) [0..<n])" by simp
  moreover have "distinct (Object_keys ans)" by (simp add: Object_keys_def)
  ultimately show ?thesis
    by (metis distinct_card)
qed

text \<open>
  C8, as amended. For every results object in which every property name of
  \<^verbatim>\<open>answers\<close> is a question index and holds an answer other than \<^verbatim>\<open>undefined\<close>, the
  counters partition the questions: \<^verbatim>\<open>correctAnswers + incorrectAnswers\<close> is the number
  of answered questions (\<^verbatim>\<open>Object.keys(answers).length\<close>), \<^verbatim>\<open>unanswered\<close> is
  \<^verbatim>\<open>totalQuestions - answeredQuestions\<close>, and the three counters add up to
  \<^verbatim>\<open>totalQuestions\<close>.
\<close>

theorem statistics_partition:
  assumes qs: "questions results = Some qs"
      and ans: "answers results = Some ans"
      and range: "list_all (\<lambda>k. k < length qs) (Object_keys ans)"
      and defd: "list_all (\<lambda>k. get_prop ans k \<noteq> Undefined) (Object_keys ans)"
  shows "\<exists>st. computeStatistics results = Inr st
           \<and> totalQuestions st = length qs
           \<and> answeredQuestions st = length (Object_keys ans)
           \<and> correctAnswers st + incorrectAnswers st = answeredQuestions st
           \<and> unanswered st = int (totalQuestions st) - int (answeredQuestions st)
           \<and> int (correctAnswers st) + int (incorrectAnswers st) + unanswered st
               = int (totalQuestions st)"
proof -
  obtain c n where cn: "countAnswers qs 0 ans (0, 0) = (c, n)"
    by (cases "countAnswers qs 0 ans (0, 0)")
  have "c + n = length (filter (\<lambda>j. get_prop ans j \<noteq> Undefined) [0..<length qs])"
    using countAnswers_total [of qs 0 ans 0 0] cn by simp
  then have "c + n = length (Object_keys ans)"
    using answered_keys_count [OF range defd] by simp
  then show ?thesis
    by (simp add: computeStatistics_def Let_def qs ans cn)
qed

text \<open>
  Three questions, the first answered correctly, the third wrongly, the second not
  answered: 1 + 1 + 1 = 3.
\<close>

theorem statistics_partition_witness:
  "list_all (\<lambda>k. k < length [example_question ''q1'', example_question ''q2'', example_question ''q3''])
     (Object_keys [(0, Defined (1::nat)), (2, Defined 0)])
   \<and> list_all (\<lambda>k. get_prop [(0, Defined (1::nat)), (2, Defined 0)] k \<noteq> Undefined)
     (Object_keys [(0, Defined (1::nat)), (2, Defined 0)])
   \<and> computeStatistics
        \<lparr> questions = Some [example_question ''q1'', example_question ''q2'', example_question ''q3''],
          answers = Some [(0, Defined 1), (2, Defined 0)], timeElapsed = 30, config_domain = None \<rparr>
      = Inr \<lparr> totalQuestions = 3, answeredQuestions = 2, correctAnswers = 1,
              incorrectAnswers = 1, unanswered = 1 \<rparr>"
proof -
  let ?qs = "[example_question ''q1'', example_question ''q2'', example_question ''q3'']"
  let ?ans = "[(0, Defined (1::nat)), (2, Defined 0)]"
  let ?r = "\<lparr> questions = Some ?qs, answers = Some ?ans, timeElapsed = 30, config_domain = None \<rparr>"
  have r: "list_all (\<lambda>k. k < length ?qs) (Object_keys ?ans)"
    by (simp add: Object_keys_def)
  have d: "list_all (\<lambda>k. get_prop ?ans k \<noteq> Undefined) (Object_keys ?ans)"
    by (simp add: Object_keys_def get_prop_def)
  have e: "computeStatistics ?r = Inr \<lparr> totalQuestions = 3, answeredQuestions = 2, correctAnswers = 1,
              incorrectAnswers = 1, unanswered = 1 \<rparr>"
    using statistics_partition [of ?r ?qs ?ans, OF _ _ r d]
    by (simp add: computeStatistics_def Let_def Object_keys_def get_prop_def example_question_def)
  from r d e show ?thesis by blast
qed

text \<open>
  C8 as stated fails when a property of \<^verbatim>\<open>answers\<close> holds \<^verbatim>\<open>undefined\<close>: for one
  question and \<^verbatim>\<open>answers = {0: undefined}\<close> the only property name is the question index
  0, \<^verbatim>\<open>Object.keys\<close> counts it as answered, the loop's test
  \<^verbatim>\<open>answers[index] !== undefined\<close> skips it, and the counters are 0 + 0 against 1
  answered and 0 + 0 + 0 against 1 question.
\<close>

theorem statistics_partition_counterexample:
  "set (Object_keys [(0, Undefined :: nat jsval)]) \<subseteq> {..< length [example_question ''q1'']}
   \<and> computeStatistics
        \<lparr> questions = Some [example_question ''q1''], answers = Some [(0, Undefined)],
          timeElapsed = 30, config_domain = None \<rparr>
      = Inr \<lparr> totalQuestions = 1, answeredQuestions = 1, correctAnswers = 0,
              incorrectAnswers = 0, unanswered = 0 \<rparr>"
  by (simp add: computeStatistics_def Let_def Object_keys_def get_prop_def example_question_def)

subsection \<open>The processing effect\<close>

lemma resultsId_cases:
  "resultsId results = Some ident \<longleftrightarrow>
     (\<exists>r qs ans. results = Some r \<and> questions r = Some qs \<and> answers r = Some ans
        \<and> ident = quizId qs (timeElapsed r))"
  by (auto simp: resultsId_def split: option.splits)

lemma resultsId_None:
  "resultsId results = None \<longleftrightarrow>
     (case results of None \<Rightarrow> True | Some r \<Rightarrow> questions r = None \<or> answers r = None)"
  by (auto simp: resultsId_def split: option.splits)

lemma effect_stores_identifier:
  assumes "resultsId results = Some ident"
      and "processingEffect st results = (st', calls, out)"
  shows "processedQuizId st' = Some ident"
  using assms
  by (auto simp: resultsId_cases processingEffect_def Let_def split: if_splits sum.splits)

lemma effect_skips:
  assumes "processedQuizId st = Some ident"
      and "resultsId results = Some ident \<or> resultsId results = None"
  shows "processingEffect st results = (st, [], Returned)"
  using assms
  by (auto simp: resultsId_cases resultsId_None processingEffect_def Let_def split: option.splits)

lemma reruns_skip:
  assumes "processedQuizId st = Some ident"
      and "list_all (\<lambda>r. resultsId r = Some ident \<or> resultsId r = None) rs"
  shows "runEffects st rs = (st, replicate (length rs) [])"
  using assms
  by (induction rs) (simp_all add: effect_skips)

lemmas example_simps =
  example_results_def example_question_def resultsId_def processingEffect_def quizId_def
  show_int_def show_nat.simps digit_char_def questionCalls_def questionDetails_def
  countCorrectKeys_def Object_keys_def get_prop_def or_default_def initial_screen_def Let_def

text \<open>
  C9, as amended. After the effect has run for a quiz with a given identifier (first
  question id, timeElapsed, question count), every re-run of the effect with the same
  identifier makes no call at all (no recordQuestionAttempt, saveAnsweredQuestion or
  updateProgressAfterQuiz) and leaves the state as it is, for any number of re-runs, as
  long as no run for a quiz with another identifier comes in between; runs without
  usable results in between change nothing.
\<close>

theorem reruns_make_no_calls:
  assumes "resultsId results = Some ident"
      and "processingEffect st results = (st', calls, out)"
      and "list_all (\<lambda>r. resultsId r = Some ident \<or> resultsId r = None) reruns"
  shows "runEffects st' reruns = (st', replicate (length reruns) [])"
  using assms effect_stores_identifier reruns_skip by blast

text \<open>
  The quiz \<open>q7\<close> is processed on a fresh screen; the effect then runs again with the
  same results, with no results, and with the same results once more.
\<close>

theorem reruns_make_no_calls_witness:
  "resultsId (Some (example_results ''q7'')) = Some ''q7_30_1''
   \<and> fst (processingEffect initial_screen (Some (example_results ''q7'')))
       = \<lparr> processedQuizId = Some ''q7_30_1'', hasProcessed = True \<rparr>
   \<and> list_all (\<lambda>r. resultsId r = Some ''q7_30_1'' \<or> resultsId r = None)
       [Some (example_results ''q7''), None, Some (example_results ''q7'')]
   \<and> runEffects \<lparr> processedQuizId = Some ''q7_30_1'', hasProcessed = True \<rparr>
        [Some (example_results ''q7''), None, Some (example_results ''q7'')]
      = (\<lparr> processedQuizId = Some ''q7_30_1'', hasProcessed = True \<rparr>, [[], [], []])"
proof -
  let ?r = "Some (example_results ''q7'')"
  let ?st = "\<lparr> processedQuizId = Some ''q7_30_1'', hasProcessed = True \<rparr>"
  have i: "resultsId ?r = Some ''q7_30_1''"
    by (simp add: example_simps)
  obtain calls out where p: "processingEffect initial_screen ?r = (?st, calls, out)"
    by (simp add: example_simps)
  have l: "list_all (\<lambda>r. resultsId r = Some ''q7_30_1'' \<or> resultsId r = None) [?r, None, ?r]"
    using i by (simp add: resultsId_def)
  have "runEffects ?st [?r, None, ?r] = (?st, [[], [], []])"
    using reruns_make_no_calls [OF i p l] by (simp add: numeral_3_eq_3)
  with i p l show ?thesis by simp
qed

text \<open>
  C9 as stated fails when a quiz with another identifier is processed in between: the
  screen keeps only the identifier of the last quiz it processed. On a fresh screen the
  effect runs for \<open>q7\<close>, then for \<open>q9\<close>, then again for \<open>q7\<close>: the third run makes
  the calls for \<open>q7\<close> that the first run made (recordQuestionAttempt,
  saveAnsweredQuestion and updateProgressAfterQuiz among them).
\<close>

theorem reruns_make_no_calls_counterexample:
  "runEffects initial_screen
     [Some (example_results ''q7''), Some (example_results ''q9''), Some (example_results ''q7'')]
   = (\<lparr> processedQuizId = Some ''q7_30_1'', hasProcessed = True \<rparr>,
      [example_calls ''q7'', example_calls ''q9'', example_calls ''q7''])"
  by (simp add: example_simps example_calls_def)

subsection \<open>The expanded-questions set\<close>

text \<open>
  C10. toggleQuestion is an involution on the expanded-questions set: toggling an index
  once flips the membership of exactly that index and leaves the membership of every
  other index as it was, and toggling the same index twice in succession gives back the
  original set.
\<close>

theorem toggleQuestion_involution:
  "(j \<in> toggleQuestion E i \<longleftrightarrow> (if j = i then i \<notin> E else j \<in> E))
   \<and> toggleQuestion (toggleQuestion E i) i = E"
  by (auto simp: toggleQuestion_def Let_def)

end
